theory Spec2Isabelle
  imports Complex_Main "HOL-Library.AList"
begin

section \<open>Data model of idle\_total.py\<close>

text \<open>
  The monitor of \<^verbatim>\<open>idle_total.py\<close> polls a Redfish client in a background thread and
  keeps the readings in a bounded deque; \<^verbatim>\<open>main\<close> exports the latest reading to a CSV
  file at a fixed cadence. The Redfish client, the clocks and the other thread are the
  environment: each loop iteration of the model receives what they returned.

  Python floats (\<^verbatim>\<open>time.time()\<close>, the watt readings) are modelled as exact reals.
\<close>

text \<open>
  The dictionary built by \<^verbatim>\<open>RedfishClient.get_power_supplies\<close> for one supply. The id
  is taken to be a string, the watt readings a number or \<^verbatim>\<open>None\<close>.
\<close>

record power_supply =
  ps_id :: string
  input_watts :: "real option"
  output_watts :: "real option"
  ps_state :: "string option"

text \<open>The dictionary built in \<^verbatim>\<open>_monitor_loop\<close>: keys timestamp, time, power, power\_supplies.\<close>

record sample =
  s_timestamp :: string
  s_time :: real
  s_power :: "real option"
  s_power_supplies :: "power_supply list"

text \<open>A call of the client either raises (the value is \<^verbatim>\<open>str(e)\<close>) or returns.\<close>

datatype 'a fetch = Failed string | Fetched 'a

text \<open>The thread object created by \<^verbatim>\<open>start\<close>.\<close>

record thread =
  target :: string
  daemon :: bool

text \<open>
  \<^verbatim>\<open>AsyncPowerMonitor\<close>. The deque is its contents, oldest first, with its \<^verbatim>\<open>maxlen\<close>.
  The lock is not modelled: every method body is one atomic step.
\<close>

record monitor =
  system_id :: string
  samples :: "sample list"
  maxlen :: nat
  running :: bool
  mthread :: "thread option"
  last_error :: "string option"
  poll_interval :: real

text \<open>What one iteration of the poller loop does to the outside, in order.\<close>

datatype poll_event =
    GetPowerConsumption
  | GetPowerSupplies
  | Appended sample
  | Sleep real

text \<open>
  What the environment gives one iteration of the poller loop: the outcome of
  \<^verbatim>\<open>get_power_consumption\<close>, the outcome of \<^verbatim>\<open>get_power_supplies\<close> (read only when the
  loop calls it), and the two clock readings taken when the sample is built.
\<close>

record poll_env =
  env_power :: "(real option) fetch"
  env_supplies :: "(power_supply list) fetch"
  env_now_iso :: string
  env_now :: real

section \<open>The ring buffer\<close>

text \<open>
  \<^verbatim>\<open>deque(maxlen=n).append(x)\<close>: the element is added on the right and, when the deque
  is then longer than \<^verbatim>\<open>maxlen\<close>, the leftmost element is dropped.
\<close>

definition deque_append :: "nat \<Rightarrow> 'a list \<Rightarrow> 'a \<Rightarrow> 'a list" where
  "deque_append n xs x = (let ys = xs @ [x] in if length ys > n then tl ys else ys)"

section \<open>AsyncPowerMonitor\<close>

definition init_monitor :: "string \<Rightarrow> nat \<Rightarrow> monitor" where
  "init_monitor sid max_samples =
     \<lparr>system_id = sid, samples = [], maxlen = max_samples, running = False,
      mthread = None, last_error = None, poll_interval = 0.05\<rparr>"

text \<open>
  \<^verbatim>\<open>start\<close> returns its result, the monitor, and the threads it has started.
\<close>

definition start :: "monitor \<Rightarrow> bool \<times> monitor \<times> thread list" where
  "start m =
     (if running m then (False, m, [])
      else
        (let t = \<lparr>target = ''_monitor_loop'', daemon = True\<rparr>
         in (True, m\<lparr>running := True, mthread := Some t\<rparr>, [t])))"

text \<open>\<^verbatim>\<open>stop\<close> returns the monitor and the threads it has joined (with the 2.0 s timeout).\<close>

definition stop :: "monitor \<Rightarrow> monitor \<times> thread list" where
  "stop m =
     (let m1 = m\<lparr>running := False\<rparr>
      in case mthread m1 of
           Some t \<Rightarrow> (m1\<lparr>mthread := None\<rparr>, [t])
         | None \<Rightarrow> (m1, []))"

text \<open>
  The body of \<^verbatim>\<open>while self.running\<close> in \<^verbatim>\<open>_monitor_loop\<close>. Both client calls are
  inside one \<^verbatim>\<open>try\<close>; any exception goes to the one \<^verbatim>\<open>except\<close> branch.
\<close>

definition monitor_iteration :: "monitor \<Rightarrow> poll_env \<Rightarrow> monitor \<times> poll_event list" where
  "monitor_iteration m e =
     (case env_power e of
        Failed msg \<Rightarrow> (m\<lparr>last_error := Some msg\<rparr>, [GetPowerConsumption, Sleep 1.0])
      | Fetched p \<Rightarrow>
          if length (samples m) mod 20 = 0 then
            (case env_supplies e of
               Failed msg \<Rightarrow>
                 (m\<lparr>last_error := Some msg\<rparr>,
                  [GetPowerConsumption, GetPowerSupplies, Sleep 1.0])
             | Fetched pss \<Rightarrow>
                 (let s = \<lparr>s_timestamp = env_now_iso e, s_time = env_now e,
                           s_power = p, s_power_supplies = pss\<rparr>
                  in (m\<lparr>samples := deque_append (maxlen m) (samples m) s\<rparr>,
                      [GetPowerConsumption, GetPowerSupplies, Appended s,
                       Sleep (poll_interval m)])))
          else
            (let s = \<lparr>s_timestamp = env_now_iso e, s_time = env_now e,
                      s_power = p, s_power_supplies = []\<rparr>
             in (m\<lparr>samples := deque_append (maxlen m) (samples m) s\<rparr>,
                 [GetPowerConsumption, Appended s, Sleep (poll_interval m)])))"

text \<open>
  \<^verbatim>\<open>_monitor_loop\<close>: the flag is tested before every iteration. The list holds the
  environment of the iterations that the thread gets to run; the loop has no other exit
  than the flag.
\<close>

fun monitor_loop :: "monitor \<Rightarrow> poll_env list \<Rightarrow> monitor \<times> poll_event list" where
  "monitor_loop m [] = (m, [])"
| "monitor_loop m (e # es) =
     (if running m then
        (let (m1, evs1) = monitor_iteration m e;
             (m2, evs2) = monitor_loop m1 es
         in (m2, evs1 @ evs2))
      else (m, []))"

text \<open>The samples appended during a run, in order, and the number of calls.\<close>

fun appended :: "poll_event list \<Rightarrow> sample list" where
  "appended [] = []"
| "appended (Appended s # evs) = s # appended evs"
| "appended (_ # evs) = appended evs"

definition successes :: "poll_env list \<Rightarrow> nat" where
  "successes es = length (filter (\<lambda>e. case env_power e of Fetched _ \<Rightarrow> True | Failed _ \<Rightarrow> False) es)"

text \<open>
  \<^verbatim>\<open>get_samples\<close> and \<^verbatim>\<open>get_latest_sample\<close> return their result and the monitor as
  they leave it.
\<close>

definition get_samples :: "monitor \<Rightarrow> real option \<Rightarrow> sample list \<times> monitor" where
  "get_samples m since_time =
     (case since_time of
        Some t \<Rightarrow> (filter (\<lambda>s. s_time s \<ge> t) (samples m), m)
      | None \<Rightarrow> (samples m, m))"

definition get_latest_sample :: "monitor \<Rightarrow> sample option \<times> monitor" where
  "get_latest_sample m =
     (if samples m \<noteq> [] then (Some (last (samples m)), m) else (None, m))"

definition get_sampling_rate :: "monitor \<Rightarrow> real" where
  "get_sampling_rate m =
     (if length (samples m) < 2 then 0
      else
        (let count = min 10 (length (samples m));
             recent_samples = drop (length (samples m) - count) (samples m)
         in if count < 2 then 0
            else
              (let time_diff = s_time (last recent_samples) - s_time (hd recent_samples)
               in if time_diff \<le> 0 then 0
                  else (real count - 1) / time_diff)))"

text \<open>Calling a read \<open>n\<close> times in a row: the results, and the monitor at the end.\<close>

fun repeat_call :: "(monitor \<Rightarrow> 'r \<times> monitor) \<Rightarrow> nat \<Rightarrow> monitor \<Rightarrow> 'r list \<times> monitor" where
  "repeat_call f 0 m = ([], m)"
| "repeat_call f (Suc n) m =
     (let (r, m1) = f m; (rs, m2) = repeat_call f n m1 in (r # rs, m2))"

section \<open>The exporter in main\<close>

text \<open>A CSV cell before formatting: a string, a number or \<^verbatim>\<open>None\<close>.\<close>

datatype cell = Str string | Num real | NoneVal

definition cell_of :: "real option \<Rightarrow> cell" where
  "cell_of v = (case v of Some r \<Rightarrow> Num r | None \<Rightarrow> NoneVal)"

text \<open>A row is a Python dict: keys in insertion order, an assignment to a present key
  replaces its value in place (\<open>AList.update\<close>).\<close>

type_synonym row = "(string \<times> cell) list"

text \<open>\<^verbatim>\<open>round(x, 6)\<close> on the exact value: to the nearest multiple of \<open>10\<^sup>-\<^sup>6\<close>, ties to even.\<close>

definition round6 :: "real \<Rightarrow> real" where
  "round6 x =
     (let y = x * 1000000; f = \<lfloor>y\<rfloor>; d = y - of_int f
      in of_int (if d < 1 / 2 then f else if d > 1 / 2 then f + 1
                 else if even f then f else f + 1) / 1000000)"

text \<open>Lines 300-313: the ids for the header, and the field names.\<close>

definition power_supply_ids :: "sample option \<Rightarrow> string list" where
  "power_supply_ids latest_sample =
     (case latest_sample of
        Some s \<Rightarrow> if s_power_supplies s \<noteq> [] then map ps_id (s_power_supplies s) else []
      | None \<Rightarrow> [])"

definition output_key :: "string \<Rightarrow> string" where
  "output_key i = ''ps_'' @ i @ ''_output_watts''"

definition input_key :: "string \<Rightarrow> string" where
  "input_key i = ''ps_'' @ i @ ''_input_watts''"

definition header_fieldnames :: "string list \<Rightarrow> string list" where
  "header_fieldnames ids =
     [''timestamp'', ''elapsed_seconds'', ''total_power_watts''] @
     concat (map (\<lambda>i. [output_key i, input_key i]) ids)"

text \<open>Lines 347-358: the row of one sample.\<close>

definition add_supply :: "row \<Rightarrow> power_supply \<Rightarrow> row" where
  "add_supply r ps =
     AList.update (input_key (ps_id ps)) (cell_of (input_watts ps))
       (AList.update (output_key (ps_id ps)) (cell_of (output_watts ps)) r)"

definition make_row :: "sample \<Rightarrow> real \<Rightarrow> row" where
  "make_row latest_sample elapsed_seconds =
     foldl add_supply
       [(''timestamp'', Str (s_timestamp latest_sample)),
        (''elapsed_seconds'', Num (round6 elapsed_seconds)),
        (''total_power_watts'', cell_of (s_power latest_sample))]
       (s_power_supplies latest_sample)"

text \<open>
  \<^verbatim>\<open>csv.DictWriter\<close> of the standard library, as \<^verbatim>\<open>main\<close> creates it (\<^verbatim>\<open>restval\<close> and
  \<^verbatim>\<open>extrasaction\<close> left at their defaults, the empty string and \<^verbatim>\<open>'raise'\<close>): a row
  with a key outside the field names raises ValueError, a field name the row lacks
  gives the empty string. \<^verbatim>\<open>writerows\<close> converts and writes the rows one by one, so
  the rows before a failing one have reached the file.
\<close>

definition rowdict_get :: "row \<Rightarrow> string \<Rightarrow> cell" where
  "rowdict_get rowdict k = (case map_of rowdict k of Some v \<Rightarrow> v | None \<Rightarrow> Str [])"

definition dict_to_list :: "string list \<Rightarrow> row \<Rightarrow> string + cell list" where
  "dict_to_list fns rowdict =
     (let wrong_fields = filter (\<lambda>k. k \<notin> set fns) (map fst rowdict)
      in if wrong_fields \<noteq> [] then Inl ''ValueError: dict contains fields not in fieldnames''
         else Inr (map (rowdict_get rowdict) fns))"

fun writerows :: "string list \<Rightarrow> cell list list \<Rightarrow> row list \<Rightarrow> string option \<times> cell list list" where
  "writerows fns file [] = (None, file)"
| "writerows fns file (r # rs) =
     (case dict_to_list fns r of
        Inl err \<Rightarrow> (Some err, file)
      | Inr cells \<Rightarrow> writerows fns (file @ [cells]) rs)"

text \<open>The command-line arguments the export loop reads.\<close>

record export_args =
  interval :: real
  duration :: int
  buffer_size :: int

text \<open>
  The local variables of \<^verbatim>\<open>main\<close> from line 307 on. \<open>csvfile\<close> is the rows written so
  far, the header first. The status line printed every 5 seconds and the idle sleep at
  the end of an iteration change none of these variables and are left out.
\<close>

record exporter =
  fieldnames :: "string list"
  csvfile :: "cell list list"
  buffer :: "row list"
  start_time :: real
  next_sample_time :: real
  samples_collected :: nat

text \<open>Lines 300-328, with \<open>t0\<close> the clock reading of line 321.\<close>

definition open_export :: "monitor \<Rightarrow> real \<Rightarrow> exporter" where
  "open_export m t0 =
     (let latest_sample = fst (get_latest_sample m);
          fns = header_fieldnames (power_supply_ids latest_sample)
      in \<lparr>fieldnames = fns, csvfile = [map Str fns], buffer = [], start_time = t0,
          next_sample_time = t0, samples_collected = 0\<rparr>)"

text \<open>Lines 340-365. Also returns the rows it has put into the buffer.\<close>

definition take_sample :: "export_args \<Rightarrow> exporter \<Rightarrow> real \<Rightarrow> sample option \<Rightarrow> exporter \<times> row list" where
  "take_sample args x current_time latest_sample =
     (if current_time \<ge> next_sample_time x then
        (let elapsed_seconds = current_time - start_time x;
             (x1, new) =
               (case latest_sample of
                  Some s \<Rightarrow>
                    (let r = make_row s elapsed_seconds
                     in (x\<lparr>buffer := buffer x @ [r],
                           samples_collected := samples_collected x + 1\<rparr>, [r]))
                | None \<Rightarrow> (x, []))
         in (x1\<lparr>next_sample_time := current_time + interval args\<rparr>, new))
      else (x, []))"

text \<open>Lines 367-371. The first component is the exception, if \<^verbatim>\<open>writerows\<close> raised.\<close>

definition flush_buffer :: "export_args \<Rightarrow> exporter \<Rightarrow> string option \<times> exporter" where
  "flush_buffer args x =
     (if int (length (buffer x)) \<ge> buffer_size args then
        (case writerows (fieldnames x) (csvfile x) (buffer x) of
           (None, f) \<Rightarrow> (None, x\<lparr>csvfile := f, buffer := []\<rparr>)
         | (Some err, f) \<Rightarrow> (Some err, x\<lparr>csvfile := f\<rparr>))
      else (None, x))"

text \<open>
  One iteration of \<^verbatim>\<open>while True\<close> receives the clock reading of line 332 and what
  \<^verbatim>\<open>get_latest_sample\<close> returns at line 343. Ctrl+C raises KeyboardInterrupt in the main
  thread between any two statements. \<open>CtrlC\<close> is an interrupt that lands where the
  iteration has changed nothing yet (the top of the loop, the idle sleep, before
  \<^verbatim>\<open>buffer.append\<close>). \<open>CtrlCAt\<close> is an interrupt inside an iteration that has passed the
  duration check, at one of these points:
  \<^item> \<open>AfterAppend\<close>: after \<^verbatim>\<open>buffer.append(row)\<close> (line 361), before the counter;
  \<^item> \<open>AfterCount\<close>: after \<^verbatim>\<open>samples_collected += 1\<close> (line 362), before line 365;
  \<^item> \<open>AfterSchedule\<close>: after line 365, before any write;
  \<^item> \<open>InWrite k\<close>: inside the flush of lines 368-371, when \<^verbatim>\<open>writerows\<close> has written
    \<open>k\<close> of the buffered rows and \<^verbatim>\<open>buffer = []\<close> has not run (all of them written:
    between lines 369 and 371).
  An interrupt after line 371 is a \<open>CtrlC\<close> of the next iteration. A row is written
  whole or not at all.
\<close>

datatype interrupt_point = AfterAppend | AfterCount | AfterSchedule | InWrite nat

datatype tick =
    Tick real "sample option"
  | CtrlC
  | CtrlCAt real "sample option" interrupt_point

datatype loop_exit = DurationReached | KeyboardInterrupt | Raised string | Unfinished

text \<open>The iteration that an interrupt cuts short at the given point.\<close>

definition interrupted ::
  "export_args \<Rightarrow> exporter \<Rightarrow> real \<Rightarrow> sample option \<Rightarrow> interrupt_point
     \<Rightarrow> loop_exit \<times> exporter \<times> row list" where
  "interrupted args x current_time latest_sample p =
     (case p of
        AfterAppend \<Rightarrow>
          (if current_time \<ge> next_sample_time x then
             (case latest_sample of
                Some s \<Rightarrow>
                  (let r = make_row s (current_time - start_time x)
                   in (KeyboardInterrupt, x\<lparr>buffer := buffer x @ [r]\<rparr>, [r]))
              | None \<Rightarrow> (KeyboardInterrupt, x, []))
           else (KeyboardInterrupt, x, []))
      | AfterCount \<Rightarrow>
          (if current_time \<ge> next_sample_time x then
             (case latest_sample of
                Some s \<Rightarrow>
                  (let r = make_row s (current_time - start_time x)
                   in (KeyboardInterrupt,
                       x\<lparr>buffer := buffer x @ [r],
                         samples_collected := samples_collected x + 1\<rparr>, [r]))
              | None \<Rightarrow> (KeyboardInterrupt, x, []))
           else (KeyboardInterrupt, x, []))
      | AfterSchedule \<Rightarrow>
          (let (x1, new) = take_sample args x current_time latest_sample
           in (KeyboardInterrupt, x1, new))
      | InWrite k \<Rightarrow>
          (let (x1, new) = take_sample args x current_time latest_sample
           in if int (length (buffer x1)) \<ge> buffer_size args then
                (case writerows (fieldnames x1) (csvfile x1) (take k (buffer x1)) of
                   (None, f) \<Rightarrow> (KeyboardInterrupt, x1\<lparr>csvfile := f\<rparr>, new)
                 | (Some err, f) \<Rightarrow> (Raised err, x1\<lparr>csvfile := f\<rparr>, new))
              else (KeyboardInterrupt, x1, new)))"

text \<open>
  Lines 331-390. \<open>Unfinished\<close>: the loop is still running when the ticks given are
  used up. The third component is the rows put into the buffer, in order.
\<close>

fun export_loop :: "export_args \<Rightarrow> exporter \<Rightarrow> tick list \<Rightarrow> loop_exit \<times> exporter \<times> row list" where
  "export_loop args x [] = (Unfinished, x, [])"
| "export_loop args x (CtrlC # ts) = (KeyboardInterrupt, x, [])"
| "export_loop args x (CtrlCAt current_time latest_sample p # ts) =
     (if duration args > 0 \<and> current_time - start_time x \<ge> of_int (duration args)
      then (DurationReached, x, [])
      else interrupted args x current_time latest_sample p)"
| "export_loop args x (Tick current_time latest_sample # ts) =
     (if duration args > 0 \<and> current_time - start_time x \<ge> of_int (duration args)
      then (DurationReached, x, [])
      else
        (let (x1, new) = take_sample args x current_time latest_sample
         in case flush_buffer args x1 of
              (Some err, x2) \<Rightarrow> (Raised err, x2, new)
            | (None, x2) \<Rightarrow>
                (let (ex, x3, rows) = export_loop args x2 ts in (ex, x3, new @ rows))))"

text \<open>
  Lines 330-394: the loop, then the write of the remaining buffer (which does not empty
  it), which an exception other than KeyboardInterrupt skips.
\<close>

definition run_export :: "export_args \<Rightarrow> exporter \<Rightarrow> tick list \<Rightarrow> loop_exit \<times> exporter \<times> row list" where
  "run_export args x ts =
     (case export_loop args x ts of
        (Raised err, x1, rows) \<Rightarrow> (Raised err, x1, rows)
      | (Unfinished, x1, rows) \<Rightarrow> (Unfinished, x1, rows)
      | (ex, x1, rows) \<Rightarrow>
          if buffer x1 \<noteq> [] then
            (case writerows (fieldnames x1) (csvfile x1) (buffer x1) of
               (None, f) \<Rightarrow> (ex, x1\<lparr>csvfile := f\<rparr>, rows)
             | (Some err, f) \<Rightarrow> (Raised err, x1\<lparr>csvfile := f\<rparr>, rows))
          else (ex, x1, rows))"



section \<open>Concrete inputs\<close>

text \<open>The power-alternation of a run: success, failure, success, ... or the reverse.\<close>

definition fetched :: "'a fetch \<Rightarrow> bool" where
  "fetched r = (case r of Fetched _ \<Rightarrow> True | Failed _ \<Rightarrow> False)"

fun alternates :: "poll_env list \<Rightarrow> bool" where
  "alternates (a # b # es) =
     (fetched (env_power a) \<noteq> fetched (env_power b) \<and> alternates (b # es))"
| "alternates _ = True"

definition sid0 :: string where
  "sid0 = ''/Systems/System.Embedded.1''"

definition ps1 :: power_supply where
  "ps1 = \<lparr>ps_id = ''PS1'', input_watts = Some 85, output_watts = Some 80,
          ps_state = Some ''Enabled''\<rparr>"

definition ps2 :: power_supply where
  "ps2 = \<lparr>ps_id = ''PS2'', input_watts = Some 75, output_watts = Some 70,
          ps_state = Some ''Enabled''\<rparr>"

definition s_plain :: sample where
  "s_plain = \<lparr>s_timestamp = ''2024-05-01T10:00:01'', s_time = 1, s_power = Some 150,
              s_power_supplies = []\<rparr>"

definition s_supplies :: sample where
  "s_supplies = \<lparr>s_timestamp = ''2024-05-01T10:00:00'', s_time = 0, s_power = Some 150,
                 s_power_supplies = [ps1, ps2]\<rparr>"

definition e_ok :: poll_env where
  "e_ok = \<lparr>env_power = Fetched (Some 150), env_supplies = Fetched [ps1, ps2],
           env_now_iso = ''2024-05-01T10:00:00'', env_now = 0\<rparr>"

definition e_supplies_down :: poll_env where
  "e_supplies_down = \<lparr>env_power = Fetched (Some 150), env_supplies = Failed ''Read timed out'',
                      env_now_iso = ''2024-05-01T10:00:00'', env_now = 0\<rparr>"

definition e_power_down :: poll_env where
  "e_power_down = \<lparr>env_power = Failed ''Read timed out'', env_supplies = Fetched [ps1, ps2],
                   env_now_iso = ''2024-05-01T10:00:02'', env_now = 2\<rparr>"

text \<open>A monitor as \<^verbatim>\<open>main\<close> creates and starts it, and the same with its deque full.\<close>

definition m_started :: monitor where
  "m_started = fst (snd (start (init_monitor sid0 1000)))"

definition m_full :: monitor where
  "m_full = m_started\<lparr>samples := replicate 1000 s_plain\<rparr>"

text \<open>A monitor whose first sample carries the supplies and whose latest does not.\<close>

definition m_two :: monitor where
  "m_two = m_started\<lparr>samples := [s_supplies, s_plain]\<rparr>"

text \<open>The first sample of a buffer that carries power-supply data, if any.\<close>

definition first_with_supplies :: "sample list \<Rightarrow> sample option" where
  "first_with_supplies xs = find (\<lambda>s. s_power_supplies s \<noteq> []) xs"

definition args_fast :: export_args where
  "args_fast = \<lparr>interval = 1 / 10, duration = 0, buffer_size = 2\<rparr>"

section \<open>Starting the monitor\<close>

text \<open>
  C10. \<^verbatim>\<open>start()\<close> on a running monitor returns False, leaves every field of the monitor
  as it was and starts no thread; on a stopped monitor it sets the running flag, stores
  and starts one daemon thread running the poller loop, and returns True.
\<close>

theorem start_when_running_or_stopped:
  "(running m \<longrightarrow> start m = (False, m, [])) \<and>
   (\<not> running m \<longrightarrow>
      start m = (True, m\<lparr>running := True,
                          mthread := Some \<lparr>target = ''_monitor_loop'', daemon = True\<rparr>\<rparr>,
                 [\<lparr>target = ''_monitor_loop'', daemon = True\<rparr>]))"
  by (simp add: start_def Let_def)

theorem start_when_running_or_stopped_witness:
  "running m_started \<and> start m_started = (False, m_started, []) \<and>
   \<not> running (init_monitor sid0 1000) \<and>
   fst (start (init_monitor sid0 1000)) = True \<and>
   running (fst (snd (start (init_monitor sid0 1000)))) \<and>
   length (snd (snd (start (init_monitor sid0 1000)))) = 1"
  using start_when_running_or_stopped [of m_started]
    start_when_running_or_stopped [of "init_monitor sid0 1000"]
  by (simp add: m_started_def init_monitor_def)

section \<open>Reading the ring buffer\<close>

lemma repeat_call_read:
  assumes "\<And>m. snd (f m) = m"
  shows "repeat_call f n m = (replicate n (fst (f m)), m)"
proof (induction n)
  case 0
  show ?case by simp
next
  case (Suc n)
  show ?case using Suc assms by (simp add: case_prod_beta)
qed

text \<open>
  C9. Any number of calls of \<^verbatim>\<open>get_samples\<close> (with or without \<^verbatim>\<open>since_time\<close>) or of
  \<^verbatim>\<open>get_latest_sample\<close> in a row return the same result every time and leave the monitor,
  and so the buffer, unchanged; \<^verbatim>\<open>get_latest_sample\<close> always returns: the newest sample
  of a non-empty buffer, \<^verbatim>\<open>None\<close> for an empty one.
\<close>

theorem reads_are_idempotent:
  "repeat_call (\<lambda>m. get_samples m since_time) n m
     = (replicate n (fst (get_samples m since_time)), m) \<and>
   repeat_call get_latest_sample n m = (replicate n (fst (get_latest_sample m)), m) \<and>
   snd (get_samples m since_time) = m \<and>
   snd (get_latest_sample m) = m \<and>
   fst (get_latest_sample m) = (if samples m = [] then None else Some (last (samples m)))"
proof -
  have a: "\<And>m. snd (get_samples m since_time) = m"
    by (simp add: get_samples_def split: option.splits)
  have b: "\<And>m. snd (get_latest_sample m) = m"
    by (simp add: get_latest_sample_def)
  show ?thesis
    using repeat_call_read [of "\<lambda>m. get_samples m since_time", OF a]
      repeat_call_read [of get_latest_sample, OF b] a b
    by (simp add: get_latest_sample_def)
qed

section \<open>The rate estimate\<close>

text \<open>
  C5. \<^verbatim>\<open>get_sampling_rate\<close> returns 0 on fewer than 2 samples. Otherwise it looks at the
  last \<open>count = min(10, n)\<close> of the \<open>n\<close> buffered samples (the list \<open>recent\<close>, which
  starts at index \<open>n - count\<close>), and returns 0 when the time from the first to the last
  of them is not positive, and \<open>(count - 1)\<close> divided by that time when it is. On two
  samples whose times are 1 apart it returns 1.
\<close>

theorem get_sampling_rate_cases:
  "(length (samples m) < 2 \<longrightarrow> get_sampling_rate m = 0) \<and>
   (2 \<le> length (samples m) \<longrightarrow>
      (let n = length (samples m);
           count = min 10 n;
           recent = drop (n - count) (samples m);
           span = s_time (last (samples m)) - s_time (samples m ! (n - count))
       in length recent = count \<and>
          take (n - count) (samples m) @ recent = samples m \<and>
          (span \<le> 0 \<longrightarrow> get_sampling_rate m = 0) \<and>
          (0 < span \<longrightarrow> get_sampling_rate m = (real count - 1) / span))) \<and>
   (\<forall>a b. samples m = [a, b] \<and> s_time b = s_time a + 1 \<longrightarrow> get_sampling_rate m = 1)"
proof -
  have small: "length (samples m) < 2 \<Longrightarrow> get_sampling_rate m = 0"
    by (simp add: get_sampling_rate_def)
  have big: "get_sampling_rate m =
      (if s_time (last (samples m))
            - s_time (samples m ! (length (samples m) - min 10 (length (samples m)))) \<le> 0
       then 0
       else (real (min 10 (length (samples m))) - 1) /
            (s_time (last (samples m))
              - s_time (samples m ! (length (samples m) - min 10 (length (samples m))))))"
    if "2 \<le> length (samples m)"
  proof -
    let ?n = "length (samples m)"
    let ?k = "min 10 ?n"
    have k: "2 \<le> ?k" "?k \<le> ?n" using that by simp_all
    have l: "last (drop (?n - ?k) (samples m)) = last (samples m)"
      using k by simp
    have h: "hd (drop (?n - ?k) (samples m)) = samples m ! (?n - ?k)"
      using k by (simp add: hd_drop_conv_nth)
    have n2: "\<not> ?n < 2" and k2: "\<not> ?k < 2" using k by linarith+
    have "get_sampling_rate m =
        (if s_time (last (drop (?n - ?k) (samples m)))
              - s_time (hd (drop (?n - ?k) (samples m))) \<le> 0 then 0
         else (real ?k - 1) /
              (s_time (last (drop (?n - ?k) (samples m)))
                - s_time (hd (drop (?n - ?k) (samples m)))))"
      unfolding get_sampling_rate_def Let_def if_not_P [OF n2] if_not_P [OF k2] ..
    then show ?thesis
      unfolding l h .
  qed
  have two: "get_sampling_rate m = 1" if "samples m = [a, b]" "s_time b = s_time a + 1" for a b
    using that by (simp add: get_sampling_rate_def Let_def)
  show ?thesis
    using small big two by (simp add: Let_def)
qed

theorem get_sampling_rate_cases_witness:
  "length (samples m_started) < 2 \<and> get_sampling_rate m_started = 0 \<and>
   2 \<le> length (samples m_two) \<and>
   samples m_two = [s_supplies, s_plain] \<and> s_time s_plain = s_time s_supplies + 1 \<and>
   0 < s_time (last (samples m_two)) - s_time (samples m_two ! 0) \<and>
   get_sampling_rate m_two = 1 \<and>
   s_time (last [s_plain, s_plain]) - s_time ([s_plain, s_plain] ! 0) \<le> 0 \<and>
   get_sampling_rate (m_started\<lparr>samples := [s_plain, s_plain]\<rparr>) = 0"
  using get_sampling_rate_cases [of m_started] get_sampling_rate_cases [of m_two]
    get_sampling_rate_cases [of "m_started\<lparr>samples := [s_plain, s_plain]\<rparr>"]
  by (simp add: m_two_def m_started_def init_monitor_def start_def s_plain_def s_supplies_def
      Let_def)

section \<open>The poller loop\<close>

lemma appended_append: "appended (evs1 @ evs2) = appended evs1 @ appended evs2"
  by (induction evs1 rule: appended.induct) simp_all

lemma monitor_iteration_running: "running (fst (monitor_iteration m e)) = running m"
  by (simp add: monitor_iteration_def Let_def split: fetch.splits)

lemma monitor_iteration_maxlen: "maxlen (fst (monitor_iteration m e)) = maxlen m"
  by (simp add: monitor_iteration_def Let_def split: fetch.splits)

lemma monitor_iteration_samples:
  "samples (fst (monitor_iteration m e))
     = foldl (deque_append (maxlen m)) (samples m) (appended (snd (monitor_iteration m e)))"
  by (simp add: monitor_iteration_def Let_def split: fetch.splits)

lemma monitor_loop_maxlen: "maxlen (fst (monitor_loop m es)) = maxlen m"
proof (induction es arbitrary: m)
  case Nil
  show ?case by simp
next
  case (Cons e es)
  show ?case
    using Cons [of "fst (monitor_iteration m e)"] monitor_iteration_maxlen [of m e]
    by (simp add: case_prod_beta)
qed

lemma monitor_loop_samples:
  "samples (fst (monitor_loop m es))
     = foldl (deque_append (maxlen m)) (samples m) (appended (snd (monitor_loop m es)))"
proof (induction es arbitrary: m)
  case Nil
  show ?case by simp
next
  case (Cons e es)
  show ?case
    using Cons [of "fst (monitor_iteration m e)"] monitor_iteration_maxlen [of m e]
      monitor_iteration_samples [of m e]
    by (simp add: case_prod_beta appended_append)
qed

lemma deque_append_length: "length xs \<le> n \<Longrightarrow> length (deque_append n xs x) \<le> n"
  by (simp add: deque_append_def Let_def)

lemma drop_one_tl: "drop (Suc 0) zs = tl zs"
  by (simp add: drop_Suc)

lemma drop_then_append: "k \<le> length as \<Longrightarrow> drop k as @ bs = drop k (as @ bs)"
  by simp

lemma deque_append_drop:
  assumes "length xs \<le> n"
  shows "deque_append n xs x = drop (Suc (length xs) - n) (xs @ [x])"
proof (cases "length xs = n")
  case True
  then have d: "Suc (length xs) - n = Suc 0" by simp
  have "deque_append n xs x = tl (xs @ [x])"
    using True by (simp add: deque_append_def Let_def)
  then show ?thesis
    unfolding d drop_one_tl .
next
  case False
  with assms have d: "Suc (length xs) - n = 0" by simp
  have "deque_append n xs x = xs @ [x]"
    using False assms by (simp add: deque_append_def Let_def)
  then show ?thesis
    unfolding d by simp
qed

lemma foldl_deque_append:
  "length xs \<le> n \<Longrightarrow>
     foldl (deque_append n) xs ys = drop (length xs + length ys - n) (xs @ ys)"
proof (induction ys arbitrary: xs)
  case Nil
  then show ?case by simp
next
  case (Cons y ys)
  define d where "d = Suc (length xs) - n"
  define zs where "zs = deque_append n xs y"
  have len: "length zs \<le> n"
    unfolding zs_def using Cons.prems by (rule deque_append_length)
  have eq: "zs = drop d (xs @ [y])"
    unfolding zs_def d_def using Cons.prems by (rule deque_append_drop)
  have d_le: "d \<le> Suc (length xs)"
    unfolding d_def by simp
  have lz: "length zs = Suc (length xs) - d"
    unfolding eq by simp
  have "drop d (xs @ [y]) @ ys = drop d ((xs @ [y]) @ ys)"
    using d_le by (intro drop_then_append) simp
  then have cat: "zs @ ys = drop d (xs @ y # ys)"
    unfolding eq by simp
  have idx: "length zs + length ys - n + d = length xs + length (y # ys) - n"
    unfolding lz using Cons.prems d_def by auto
  have "foldl (deque_append n) xs (y # ys) = foldl (deque_append n) zs ys"
    unfolding zs_def by simp
  also have "\<dots> = drop (length zs + length ys - n) (zs @ ys)"
    using Cons.IH [OF len] .
  also have "\<dots> = drop (length zs + length ys - n + d) (xs @ y # ys)"
    unfolding cat by (simp only: drop_drop)
  finally show ?case
    unfolding idx .
qed

text \<open>
  C6. Started on the empty deque that \<^verbatim>\<open>__init__\<close> creates with capacity \<open>C\<close>, after any
  number of poller iterations the ring buffer holds the last \<open>C\<close> of the samples
  appended so far, in the order of their insertion (all of them while there are fewer
  than \<open>C\<close>), and its length, the smaller of \<open>C\<close> and the number appended, is never
  above \<open>C\<close>. The same holds for any list \<open>ys\<close> of samples appended one by one to an
  empty deque of capacity \<open>C\<close>.
\<close>

theorem ring_buffer_keeps_last:
  "samples (fst (monitor_loop (fst (snd (start (init_monitor sid C)))) es))
     = drop (length (appended (snd (monitor_loop (fst (snd (start (init_monitor sid C)))) es))) - C)
         (appended (snd (monitor_loop (fst (snd (start (init_monitor sid C)))) es))) \<and>
   length (samples (fst (monitor_loop (fst (snd (start (init_monitor sid C)))) es)))
     = min C (length (appended (snd (monitor_loop (fst (snd (start (init_monitor sid C)))) es)))) \<and>
   length (samples (fst (monitor_loop (fst (snd (start (init_monitor sid C)))) es))) \<le> C \<and>
   foldl (deque_append C) [] ys = drop (length ys - C) ys \<and>
   length (foldl (deque_append C) [] ys) = min C (length ys)"
proof -
  let ?m0 = "fst (snd (start (init_monitor sid C)))"
  have m0: "samples ?m0 = []" "maxlen ?m0 = C"
    by (simp_all add: start_def init_monitor_def Let_def)
  have "samples (fst (monitor_loop ?m0 es))
      = foldl (deque_append C) [] (appended (snd (monitor_loop ?m0 es)))"
    using monitor_loop_samples [of ?m0 es] m0 by simp
  then have eq: "samples (fst (monitor_loop ?m0 es))
      = drop (length (appended (snd (monitor_loop ?m0 es))) - C)
          (appended (snd (monitor_loop ?m0 es)))"
    using foldl_deque_append [of "[]" C "appended (snd (monitor_loop ?m0 es))"] by simp
  have "length (samples (fst (monitor_loop ?m0 es)))
      = min C (length (appended (snd (monitor_loop ?m0 es))))"
    unfolding eq by simp
  moreover have "foldl (deque_append C) [] ys = drop (length ys - C) ys"
    using foldl_deque_append [of "[]" C ys] by simp
  ultimately show ?thesis using eq by simp
qed

text \<open>A run with capacity 2 and three successful polls keeps the last two samples.\<close>

lemma ring_buffer_example:
  "length (appended (snd (monitor_loop (fst (snd (start (init_monitor sid0 2)))) [e_ok, e_ok, e_ok]))) = 3 \<and>
   length (samples (fst (monitor_loop (fst (snd (start (init_monitor sid0 2)))) [e_ok, e_ok, e_ok]))) = 2"
  by (simp add: start_def init_monitor_def Let_def monitor_iteration_def e_ok_def
      deque_append_def)

text \<open>
  C1 as the code has it. When \<^verbatim>\<open>get_power_supplies\<close> raises on an iteration whose power
  fetch succeeded, no sample is appended for that iteration: the exception reaches the
  same handler as a failed power fetch, which stores the message in \<^verbatim>\<open>last_error\<close> and
  sleeps 1.0 s; the deque and the running flag stay as they were.
\<close>

theorem supplies_failure_skips_sample:
  "env_power e = Fetched p \<Longrightarrow> length (samples m) mod 20 = 0 \<Longrightarrow>
   env_supplies e = Failed msg \<Longrightarrow>
   monitor_iteration m e
     = (m\<lparr>last_error := Some msg\<rparr>, [GetPowerConsumption, GetPowerSupplies, Sleep 1])"
  by (simp add: monitor_iteration_def)

theorem supplies_failure_skips_sample_witness:
  "env_power e_supplies_down = Fetched (Some 150) \<and>
   length (samples m_started) mod 20 = 0 \<and>
   env_supplies e_supplies_down = Failed ''Read timed out'' \<and>
   monitor_iteration m_started e_supplies_down
     = (m_started\<lparr>last_error := Some ''Read timed out''\<rparr>,
        [GetPowerConsumption, GetPowerSupplies, Sleep 1])"
  using supplies_failure_skips_sample
    [of e_supplies_down "Some 150" m_started "''Read timed out''"]
  by (simp add: e_supplies_down_def m_started_def start_def init_monitor_def Let_def)

text \<open>
  The claim as written fails on the first iteration of a fresh monitor whose power fetch
  succeeds and whose power-supply fetch times out: the buffer stays empty.
\<close>

theorem supplies_failure_counterexample:
  "env_power e_supplies_down = Fetched (Some 150) \<and>
   env_supplies e_supplies_down = Failed ''Read timed out'' \<and>
   GetPowerSupplies \<in> set (snd (monitor_iteration m_started e_supplies_down)) \<and>
   appended (snd (monitor_iteration m_started e_supplies_down)) = [] \<and>
   samples (fst (monitor_iteration m_started e_supplies_down)) = []"
  by (simp add: e_supplies_down_def m_started_def start_def init_monitor_def Let_def
      monitor_iteration_def)

lemma supplies_called_iff:
  "env_power e = Fetched p \<Longrightarrow>
   (GetPowerSupplies \<in> set (snd (monitor_iteration m e))) = (length (samples m) mod 20 = 0)"
  by (simp add: monitor_iteration_def Let_def split: fetch.splits)

lemma full_deque_stays_full:
  "length (samples m) = maxlen m \<Longrightarrow>
   length (samples (fst (monitor_iteration m e))) = maxlen m"
  by (simp add: monitor_iteration_def deque_append_def Let_def split: fetch.splits)

text \<open>
  C3 at a full deque. With the default capacity of 1000 the length of a full deque stays
  1000, a multiple of 20, so every successful iteration calls \<^verbatim>\<open>get_power_supplies\<close>:
  three polls in a row make three calls. (The call is made exactly when the length of
  the deque is a multiple of 20; once the deque is full that is no longer every 20th
  poll.)
\<close>

theorem full_buffer_fetches_supplies_every_poll:
  "length (samples m_full) = maxlen m_full \<and> maxlen m_full = 1000 \<and>
   count_list (snd (monitor_loop m_full [e_ok, e_ok, e_ok])) GetPowerConsumption = 3 \<and>
   count_list (snd (monitor_loop m_full [e_ok, e_ok, e_ok])) GetPowerSupplies = 3"
proof -
  let ?m1 = "fst (monitor_iteration m_full e_ok)"
  let ?m2 = "fst (monitor_iteration ?m1 e_ok)"
  have full0: "length (samples m_full) = maxlen m_full" and cap: "maxlen m_full = 1000"
    by (simp_all add: m_full_def m_started_def start_def init_monitor_def Let_def)
  have run0: "running m_full"
    by (simp add: m_full_def m_started_def start_def init_monitor_def Let_def)
  have p: "env_power e_ok = Fetched (Some 150)" and s: "env_supplies e_ok = Fetched [ps1, ps2]"
    by (simp_all add: e_ok_def)
  have full1: "length (samples ?m1) = 1000"
    using full_deque_stays_full [OF full0, of e_ok] cap by simp
  have cap1: "maxlen ?m1 = 1000"
    using monitor_iteration_maxlen [of m_full e_ok] cap by simp
  have full2: "length (samples ?m2) = 1000"
    using full_deque_stays_full [of ?m1 e_ok] full1 cap1 by simp
  have run1: "running ?m1" and run2: "running ?m2"
    using run0 by (simp_all add: monitor_iteration_running)
  have ev: "snd (monitor_iteration m e_ok)
      = [GetPowerConsumption, GetPowerSupplies,
         Appended \<lparr>s_timestamp = env_now_iso e_ok, s_time = env_now e_ok, s_power = Some 150,
                   s_power_supplies = [ps1, ps2]\<rparr>,
         Sleep (poll_interval m)]"
    if "length (samples m) = 1000" for m
    using that p s by (simp add: monitor_iteration_def Let_def)
  have "snd (monitor_loop m_full [e_ok, e_ok, e_ok])
      = snd (monitor_iteration m_full e_ok) @ snd (monitor_iteration ?m1 e_ok)
        @ snd (monitor_iteration ?m2 e_ok)"
    using run0 run1 run2 by (simp add: case_prod_beta)
  then show ?thesis
    using full0 cap ev [of m_full] ev [OF full1] ev [OF full2] by simp
qed

lemma monitor_loop_counts:
  "running m \<Longrightarrow> list_all (\<lambda>e. fetched (env_supplies e)) es \<Longrightarrow>
   length (appended (snd (monitor_loop m es))) = successes es \<and>
   count_list (snd (monitor_loop m es)) GetPowerConsumption = length es \<and>
   running (fst (monitor_loop m es))"
proof (induction es arbitrary: m)
  case Nil
  then show ?case by (simp add: successes_def)
next
  case (Cons e es)
  let ?m1 = "fst (monitor_iteration m e)"
  have run1: "running ?m1"
    using Cons.prems(1) by (simp add: monitor_iteration_running)
  have rest: "list_all (\<lambda>e. fetched (env_supplies e)) es"
    using Cons.prems(2) by simp
  have ok: "fetched (env_supplies e)"
    using Cons.prems(2) by simp
  have step: "length (appended (snd (monitor_iteration m e))) = successes [e] \<and>
      count_list (snd (monitor_iteration m e)) GetPowerConsumption = 1"
    using ok
    by (simp add: monitor_iteration_def successes_def fetched_def Let_def split: fetch.splits)
  have split: "successes (e # es) = successes [e] + successes es"
    by (simp add: successes_def)
  have cnt: "count_list (xs @ ys) a = count_list xs a + count_list ys a" for xs ys :: "poll_event list" and a
    by (induction xs) simp_all
  show ?case
    using Cons.IH [OF run1 rest] step Cons.prems(1)
    by (simp add: case_prod_beta appended_append split cnt)
qed

text \<open>
  C7 as the code has it. In a run in which no power-supply fetch fails, the number of
  samples appended is the number of successful power fetches, whether these alternate
  with failures or not. A failed power fetch stores its message in \<^verbatim>\<open>last_error\<close>
  (whatever was there), sleeps 1.0 s, appends nothing and leaves the running flag alone;
  the loop runs every iteration of the sequence and is still running after it.
\<close>

theorem failed_polls_append_nothing:
  assumes "running m" and "list_all (\<lambda>e. fetched (env_supplies e)) es"
  shows "length (appended (snd (monitor_loop m es))) = successes es \<and>
         count_list (snd (monitor_loop m es)) GetPowerConsumption = length es \<and>
         running (fst (monitor_loop m es)) \<and>
         (\<forall>m' e msg. env_power e = Failed msg \<longrightarrow>
            monitor_iteration m' e = (m'\<lparr>last_error := Some msg\<rparr>, [GetPowerConsumption, Sleep 1]))"
  using monitor_loop_counts [OF assms] by (simp add: monitor_iteration_def)

theorem failed_polls_append_nothing_witness:
  "running m_started \<and>
   list_all (\<lambda>e. fetched (env_supplies e)) [e_ok, e_power_down, e_ok, e_power_down] \<and>
   alternates [e_ok, e_power_down, e_ok, e_power_down] \<and>
   successes [e_ok, e_power_down, e_ok, e_power_down] = 2 \<and>
   length (appended (snd (monitor_loop m_started [e_ok, e_power_down, e_ok, e_power_down]))) = 2 \<and>
   count_list (snd (monitor_loop m_started [e_ok, e_power_down, e_ok, e_power_down]))
     GetPowerConsumption = 4 \<and>
   env_power e_power_down = Failed ''Read timed out'' \<and>
   monitor_iteration m_started e_power_down
     = (m_started\<lparr>last_error := Some ''Read timed out''\<rparr>, [GetPowerConsumption, Sleep 1])"
proof -
  have r: "running m_started"
    by (simp add: m_started_def start_def init_monitor_def Let_def)
  have s: "list_all (\<lambda>e. fetched (env_supplies e)) [e_ok, e_power_down, e_ok, e_power_down]"
    by (simp add: e_ok_def e_power_down_def fetched_def)
  have a: "alternates [e_ok, e_power_down, e_ok, e_power_down]"
    by (simp add: e_ok_def e_power_down_def fetched_def)
  have n: "successes [e_ok, e_power_down, e_ok, e_power_down] = 2"
    by (simp add: successes_def e_ok_def e_power_down_def)
  have p: "env_power e_power_down = Failed ''Read timed out''"
    by (simp add: e_power_down_def)
  note h = failed_polls_append_nothing [OF r s]
  have t: "length (appended (snd (monitor_loop m_started [e_ok, e_power_down, e_ok, e_power_down]))) = 2"
    using h [THEN conjunct1] n by (simp only:)
  have c: "count_list (snd (monitor_loop m_started [e_ok, e_power_down, e_ok, e_power_down]))
        GetPowerConsumption = 4"
    using h [THEN conjunct2, THEN conjunct1] by (simp only: list.size)
  have f: "monitor_iteration m_started e_power_down
          = (m_started\<lparr>last_error := Some ''Read timed out''\<rparr>, [GetPowerConsumption, Sleep 1])"
    using h [THEN conjunct2, THEN conjunct2, THEN conjunct2, rule_format, OF p] .
  show ?thesis
    using t c f r s a n p by (intro conjI)
qed

text \<open>
  The claim as written fails on an alternating run whose one successful power fetch is
  followed by a failing power-supply fetch: one success, no sample appended.
\<close>

theorem failed_polls_counterexample:
  "running m_started \<and>
   alternates [e_supplies_down, e_power_down] \<and>
   successes [e_supplies_down, e_power_down] = 1 \<and>
   appended (snd (monitor_loop m_started [e_supplies_down, e_power_down])) = [] \<and>
   samples (fst (monitor_loop m_started [e_supplies_down, e_power_down])) = []"
  by (simp add: m_started_def start_def init_monitor_def Let_def monitor_iteration_def
      e_supplies_down_def e_power_down_def fetched_def successes_def)


section \<open>The export loop\<close>

text \<open>
  C4 as the code has it. On a tick that has reached \<open>next_sample_time\<close>, exactly one row
  (the row of the latest sample) is put at the end of the write buffer when there is a
  latest sample, none otherwise, and \<open>next_sample_time\<close> becomes the current time plus
  the interval (line 365), which is at least one interval after its previous value. So
  with a positive interval a further tick at the same clock reading takes nothing: a
  stall is answered by one row. A tick before \<open>next_sample_time\<close> changes nothing.
\<close>

theorem take_sample_schedule:
  "(next_sample_time x \<le> current_time \<longrightarrow>
      buffer (fst (take_sample args x current_time latest))
        = buffer x @ snd (take_sample args x current_time latest) \<and>
      snd (take_sample args x current_time latest)
        = (case latest of Some s \<Rightarrow> [make_row s (current_time - start_time x)] | None \<Rightarrow> []) \<and>
      next_sample_time (fst (take_sample args x current_time latest))
        = current_time + interval args \<and>
      next_sample_time x + interval args
        \<le> next_sample_time (fst (take_sample args x current_time latest)) \<and>
      (0 < interval args \<longrightarrow>
         take_sample args (fst (take_sample args x current_time latest)) current_time latest'
           = (fst (take_sample args x current_time latest), []))) \<and>
   (current_time < next_sample_time x \<longrightarrow>
      take_sample args x current_time latest = (x, []))"
  by (cases latest) (simp_all add: take_sample_def Let_def)

theorem take_sample_schedule_witness:
  "next_sample_time (open_export m_two 0) \<le> 1 / 4 \<and>
   length (buffer (fst (take_sample args_fast (open_export m_two 0) (1 / 4) (Some s_plain)))) = 1 \<and>
   next_sample_time (fst (take_sample args_fast (open_export m_two 0) (1 / 4) (Some s_plain)))
     = 1 / 4 + interval args_fast \<and>
   0 < interval args_fast \<and>
   take_sample args_fast
       (fst (take_sample args_fast (open_export m_two 0) (1 / 4) (Some s_plain))) (1 / 4) None
     = (fst (take_sample args_fast (open_export m_two 0) (1 / 4) (Some s_plain)), []) \<and>
   1 / 5 < next_sample_time (fst (take_sample args_fast (open_export m_two 0) (1 / 4) (Some s_plain))) \<and>
   take_sample args_fast
       (fst (take_sample args_fast (open_export m_two 0) (1 / 4) (Some s_plain))) (1 / 5) None
     = (fst (take_sample args_fast (open_export m_two 0) (1 / 4) (Some s_plain)), [])"
proof -
  let ?x = "open_export m_two 0"
  have a: "next_sample_time ?x \<le> 1 / 4"
    by (simp add: open_export_def Let_def)
  have b: "buffer ?x = []"
    by (simp add: open_export_def Let_def)
  have i: "interval args_fast = 1 / 10"
    by (simp add: args_fast_def)
  note h = take_sample_schedule [of ?x "1 / 4" args_fast "Some s_plain" None,
      THEN conjunct1, rule_format, OF a]
  let ?y = "fst (take_sample args_fast ?x (1 / 4) (Some s_plain))"
  have n: "next_sample_time ?y = 1 / 4 + interval args_fast"
    using h by blast
  have l: "length (buffer ?y) = 1"
    using h b by simp
  have lt: "1 / 5 < next_sample_time ?y"
    unfolding n i by simp
  have later: "take_sample args_fast ?y (1 / 5) None = (?y, [])"
    using take_sample_schedule [of ?y "1 / 5" args_fast None None, THEN conjunct2] lt
    by blast
  have pos: "0 < interval args_fast"
    unfolding i by simp
  have same: "take_sample args_fast ?y (1 / 4) None = (?y, [])"
    using h pos by blast
  show ?thesis
    using a l n pos same lt later by (intro conjI)
qed

text \<open>
  The claim as written fails on a tick that comes late: scheduled for 0 and run at 1/4
  with an interval of 1/10, the next sample time becomes 7/20, not 1/10.
\<close>

theorem take_sample_counterexample:
  "next_sample_time (open_export m_two 0) = 0 \<and>
   interval args_fast = 1 / 10 \<and>
   next_sample_time (fst (take_sample args_fast (open_export m_two 0) (1 / 4) (Some s_plain)))
     = 7 / 20 \<and>
   next_sample_time (fst (take_sample args_fast (open_export m_two 0) (1 / 4) (Some s_plain)))
     \<noteq> next_sample_time (open_export m_two 0) + interval args_fast"
  by (simp add: take_sample_def open_export_def args_fast_def Let_def)

section \<open>Flushing the write buffer\<close>













text \<open>The rows and the file of the concrete runs below.\<close>

lemma open_export_m_two:
  "open_export m_two 0
     = \<lparr>fieldnames = [''timestamp'', ''elapsed_seconds'', ''total_power_watts''],
        csvfile = [[Str ''timestamp'', Str ''elapsed_seconds'', Str ''total_power_watts'']],
        buffer = [], start_time = 0, next_sample_time = 0, samples_collected = 0\<rparr>"
  by (simp add: open_export_def get_latest_sample_def m_two_def s_plain_def
      power_supply_ids_def header_fieldnames_def Let_def)

lemma make_row_s_plain:
  "make_row s_plain el
     = [(''timestamp'', Str ''2024-05-01T10:00:01''), (''elapsed_seconds'', Num (round6 el)),
        (''total_power_watts'', Num 150)]"
  by (simp add: make_row_def s_plain_def cell_of_def)

lemma make_row_s_supplies:
  "make_row s_supplies el
     = [(''timestamp'', Str ''2024-05-01T10:00:00''), (''elapsed_seconds'', Num (round6 el)),
        (''total_power_watts'', Num 150),
        (''ps_PS1_output_watts'', Num 80), (''ps_PS1_input_watts'', Num 85),
        (''ps_PS2_output_watts'', Num 70), (''ps_PS2_input_watts'', Num 75)]"
  by (simp add: make_row_def s_supplies_def cell_of_def add_supply_def ps1_def ps2_def
      output_key_def input_key_def)

lemma dict_to_list_s_plain:
  "dict_to_list [''timestamp'', ''elapsed_seconds'', ''total_power_watts''] (make_row s_plain el)
     = Inr [Str ''2024-05-01T10:00:01'', Num (round6 el), Num 150]"
  by (simp add: make_row_s_plain dict_to_list_def rowdict_get_def)

lemma dict_to_list_s_supplies:
  "dict_to_list [''timestamp'', ''elapsed_seconds'', ''total_power_watts'']
       (make_row s_supplies el)
     = Inl ''ValueError: dict contains fields not in fieldnames''"
  by (simp add: make_row_s_supplies dict_to_list_def)




section \<open>The CSV columns\<close>

text \<open>
  C2 on a buffer whose first sample carries the power supplies PS1 and PS2 and whose
  latest sample carries none. The header is built from the latest sample (lines
  301-304), so the file gets the three base columns and no power-supply column, not the
  columns of the first sample with power-supply data. A later sample with PS1 and PS2
  gets their keys in its row (lines 353-358); at the next flush \<^verbatim>\<open>writerows\<close> raises
  ValueError on that row, the export ends with that exception, and the row never
  reaches the file.
\<close>

theorem header_from_latest_sample_rejects_supplies:
  "samples m_two = [s_supplies, s_plain] \<and>
   first_with_supplies (samples m_two) = Some s_supplies \<and>
   map ps_id (s_power_supplies s_supplies) = [''PS1'', ''PS2''] \<and>
   header_fieldnames [''PS1'', ''PS2'']
     = [''timestamp'', ''elapsed_seconds'', ''total_power_watts'', ''ps_PS1_output_watts'',
        ''ps_PS1_input_watts'', ''ps_PS2_output_watts'', ''ps_PS2_input_watts''] \<and>
   fst (get_latest_sample m_two) = Some s_plain \<and>
   fieldnames (open_export m_two 0) = [''timestamp'', ''elapsed_seconds'', ''total_power_watts''] \<and>
   dict_to_list (fieldnames (open_export m_two 0)) (make_row s_supplies (1 / 10))
     = Inl ''ValueError: dict contains fields not in fieldnames'' \<and>
   fst (run_export args_fast (open_export m_two 0)
          [Tick 0 (Some s_plain), Tick (1 / 10) (Some s_supplies), CtrlC])
     = Raised ''ValueError: dict contains fields not in fieldnames'' \<and>
   snd (snd (run_export args_fast (open_export m_two 0)
          [Tick 0 (Some s_plain), Tick (1 / 10) (Some s_supplies), CtrlC]))
     = [make_row s_plain 0, make_row s_supplies (1 / 10)] \<and>
   csvfile (fst (snd (run_export args_fast (open_export m_two 0)
          [Tick 0 (Some s_plain), Tick (1 / 10) (Some s_supplies), CtrlC])))
     = [[Str ''timestamp'', Str ''elapsed_seconds'', Str ''total_power_watts''],
        [Str ''2024-05-01T10:00:01'', Num (round6 0), Num 150]]"
proof -
  have a: "samples m_two = [s_supplies, s_plain]"
    by (simp add: m_two_def)
  have b: "first_with_supplies (samples m_two) = Some s_supplies"
    by (simp add: first_with_supplies_def m_two_def s_supplies_def)
  have c: "map ps_id (s_power_supplies s_supplies) = [''PS1'', ''PS2'']"
    by (simp add: s_supplies_def ps1_def ps2_def)
  have d: "header_fieldnames [''PS1'', ''PS2'']
     = [''timestamp'', ''elapsed_seconds'', ''total_power_watts'', ''ps_PS1_output_watts'',
        ''ps_PS1_input_watts'', ''ps_PS2_output_watts'', ''ps_PS2_input_watts'']"
    by (simp add: header_fieldnames_def output_key_def input_key_def)
  have e: "fst (get_latest_sample m_two) = Some s_plain"
    by (simp add: get_latest_sample_def m_two_def)
  have f: "fieldnames (open_export m_two 0)
      = [''timestamp'', ''elapsed_seconds'', ''total_power_watts'']"
    by (simp add: open_export_m_two)
  have g: "dict_to_list (fieldnames (open_export m_two 0)) (make_row s_supplies (1 / 10))
     = Inl ''ValueError: dict contains fields not in fieldnames''"
    unfolding f by (rule dict_to_list_s_supplies)
  have h: "fst (run_export args_fast (open_export m_two 0)
          [Tick 0 (Some s_plain), Tick (1 / 10) (Some s_supplies), CtrlC])
     = Raised ''ValueError: dict contains fields not in fieldnames''"
    and i: "snd (snd (run_export args_fast (open_export m_two 0)
          [Tick 0 (Some s_plain), Tick (1 / 10) (Some s_supplies), CtrlC]))
     = [make_row s_plain 0, make_row s_supplies (1 / 10)]"
    and j: "csvfile (fst (snd (run_export args_fast (open_export m_two 0)
          [Tick 0 (Some s_plain), Tick (1 / 10) (Some s_supplies), CtrlC])))
     = [[Str ''timestamp'', Str ''elapsed_seconds'', Str ''total_power_watts''],
        [Str ''2024-05-01T10:00:01'', Num (round6 0), Num 150]]"
    by (simp_all add: run_export_def take_sample_def flush_buffer_def args_fast_def
        open_export_m_two dict_to_list_s_plain dict_to_list_s_supplies Let_def)
  show ?thesis
    using a b c d e f g h i j by (intro conjI)
qed

end
